theory Spec2Isabelle
  imports Complex_Main
begin

section \<open>JavaScript values\<close>

text \<open>
  The guards and the two clause builders receive plain JavaScript data: a decoded token
  payload, an object of fields to update, the parsed query string. The values that can
  occur there are modelled by one datatype. A number is an IEEE double; the code below
  only tests numbers for truthiness, so a finite double is represented by the rational it
  denotes (\<open>-0\<close> is \<open>Finite 0\<close>, falsy like \<open>0\<close>).
\<close>

datatype jsnum = NaN | Infinity bool | Finite rat

datatype jsval =
    JUndefined
  | JNull
  | JBool bool
  | JNumber jsnum
  | JString string
  | JArray "jsval list"
  | JObject "(string \<times> jsval) list"

text \<open>ToBoolean: what \<open>if (v)\<close>, \<open>!v\<close> and \<open>v || w\<close> test.\<close>

fun truthy :: "jsval \<Rightarrow> bool" where
  "truthy JUndefined = False"
| "truthy JNull = False"
| "truthy (JBool b) = b"
| "truthy (JNumber n) = (n \<noteq> NaN \<and> n \<noteq> Finite 0)"
| "truthy (JString s) = (s \<noteq> [])"
| "truthy (JArray xs) = True"
| "truthy (JObject ps) = True"

text \<open>
  The errors that reach \<open>next(err)\<close> or the caller. The three classes of
  \<open>expressError\<close> carry the message they were constructed with (\<open>None\<close>: constructed
  without one). \<open>TypeError\<close> is the runtime's own error, raised on reading a property
  of \<open>undefined\<close> and on calling something that is not a function.
\<close>

datatype error =
    UnauthorizedError "string option"
  | ForbiddenError "string option"
  | BadRequestError "string option"
  | TypeError

section \<open>Text helpers of the runtime\<close>

text \<open>The decimal text of a non-negative integer, as a template literal prints it.\<close>

definition digit :: "nat \<Rightarrow> char" where
  "digit d = ''0123456789'' ! d"

function decimal :: "nat \<Rightarrow> string" where
  "decimal n = (if n < 10 then [digit n] else decimal (n div 10) @ [digit (n mod 10)])"
  by pat_completeness auto
termination
  by (relation "measure (\<lambda>n. n)") auto

declare decimal.simps [simp del]

text \<open>\<open>Array.prototype.join\<close> on an array of strings.\<close>

fun join :: "string \<Rightarrow> string list \<Rightarrow> string" where
  "join sep [] = []"
| "join sep [x] = x"
| "join sep (x # y # ys) = x @ sep @ join sep (y # ys)"

text \<open>
  \<open>String.prototype.split\<close> with a one-character separator: the text is cut at every
  occurrence of the separator, and empty pieces are kept.
\<close>

fun splitAt :: "char \<Rightarrow> string \<Rightarrow> string list" where
  "splitAt sep [] = [[]]"
| "splitAt sep (c # cs) =
     (if c = sep then [] # splitAt sep cs
      else (case splitAt sep cs of
              [] \<Rightarrow> [[c]]
            | w # ws \<Rightarrow> (c # w) # ws))"

section \<open>helpers/sql: the partial-update clause builder\<close>

text \<open>
  \<open>dataToUpdate\<close> is an object; \<open>Object.keys\<close> and \<open>Object.values\<close> enumerate its
  own properties in the same order, so it is modelled by the list of its (key, value)
  pairs in that order. The values are passed through untouched, whatever they are.

  \<open>jsToSql\<close> is an ordinary object whose own properties are column names; left out,
  it is the empty object, \<open>Map.empty\<close>. Reading
  \<open>jsToSql[colName]\<close> also finds the properties every ordinary object inherits from
  \<open>Object.prototype\<close>; these are functions (and, for \<open>__proto__\<close>, the prototype
  object), all truthy, and the template literal prints them as the text listed here.
\<close>

definition objectPrototype :: "(string \<times> string) list" where
  "objectPrototype =
    [(''constructor'', ''function Object() { [native code] }''),
     (''__defineGetter__'', ''function __defineGetter__() { [native code] }''),
     (''__defineSetter__'', ''function __defineSetter__() { [native code] }''),
     (''hasOwnProperty'', ''function hasOwnProperty() { [native code] }''),
     (''__lookupGetter__'', ''function __lookupGetter__() { [native code] }''),
     (''__lookupSetter__'', ''function __lookupSetter__() { [native code] }''),
     (''isPrototypeOf'', ''function isPrototypeOf() { [native code] }''),
     (''propertyIsEnumerable'', ''function propertyIsEnumerable() { [native code] }''),
     (''toString'', ''function toString() { [native code] }''),
     (''valueOf'', ''function valueOf() { [native code] }''),
     (''__proto__'', ''[object Object]''),
     (''toLocaleString'', ''function toLocaleString() { [native code] }'')]"

text \<open>The text of \<open>${jsToSql[colName] || colName}\<close>.\<close>

definition columnName :: "(string \<rightharpoonup> string) \<Rightarrow> string \<Rightarrow> string" where
  "columnName jsToSql colName =
     (case jsToSql colName of
        Some c \<Rightarrow> (if c \<noteq> [] then c else colName)
      | None \<Rightarrow>
          (case map_of objectPrototype colName of
             Some inherited \<Rightarrow> inherited
           | None \<Rightarrow> colName))"

text \<open>One element of \<open>cols\<close>: \<open>"<column>"=$<idx + 1>\<close>.\<close>

definition fragment :: "(string \<rightharpoonup> string) \<Rightarrow> string \<Rightarrow> nat \<Rightarrow> string" where
  "fragment jsToSql colName idx =
     [CHR 0x22] @ columnName jsToSql colName @ [CHR 0x22] @ ''=$'' @ decimal (idx + 1)"

definition cols :: "(string \<rightharpoonup> string) \<Rightarrow> string list \<Rightarrow> string list" where
  "cols jsToSql keys = map (\<lambda>(idx, colName). fragment jsToSql colName idx) (enumerate 0 keys)"

record 'v update_clause =
  setCols :: string
  values' :: "'v list"

definition sqlForPartialUpdate ::
    "(string \<times> 'v) list \<Rightarrow> (string \<rightharpoonup> string) \<Rightarrow> error + 'v update_clause" where
  "sqlForPartialUpdate dataToUpdate jsToSql =
     (let keys = map fst dataToUpdate in
      if length keys = 0 then Inl (BadRequestError (Some ''No data''))
      else Inr \<lparr>setCols = join '', '' (cols jsToSql keys),
                values' = map snd dataToUpdate\<rparr>)"

section \<open>middleware/auth: the guards\<close>

text \<open>
  \<open>res.locals.user\<close> is \<open>undefined\<close> (no token was sent, or it did not verify) or
  the payload of the verified token: an object with the optional fields \<open>username\<close>
  and \<open>isAdmin\<close>. An absent field reads as \<open>undefined\<close>, which is falsy and strictly
  equal to \<open>undefined\<close> only. \<open>req.params.username\<close> is the \<open>:username\<close> segment of
  the path, \<open>undefined\<close> on a route that has none. A guard ends in \<open>next()\<close> or in
  \<open>next(err)\<close>.
\<close>

record actor =
  username :: "string option"
  isAdmin :: "bool option"

datatype outcome = Next | NextErr error

definition ensureLoggedIn :: "actor option \<Rightarrow> outcome" where
  "ensureLoggedIn user =
     (case user of
        None \<Rightarrow> NextErr (UnauthorizedError None)
      | Some u \<Rightarrow> Next)"

definition ensureAdmin :: "actor option \<Rightarrow> outcome" where
  "ensureAdmin user =
     (case user of
        Some u \<Rightarrow>
          (if isAdmin u = Some True then Next
           else NextErr (ForbiddenError (Some ''User must be admin'')))
      | None \<Rightarrow> NextErr (UnauthorizedError (Some ''No token provided or invalid token'')))"

text \<open>
  \<open>ensureOwnerOrAdmin\<close> reads \<open>loggedInUser.isAdmin\<close> without testing
  \<open>loggedInUser\<close> first: on \<open>undefined\<close> the read throws a \<open>TypeError\<close>, which the
  surrounding \<open>catch\<close> hands to \<open>next\<close>.
\<close>

definition ensureOwnerOrAdmin :: "actor option \<Rightarrow> string option \<Rightarrow> outcome" where
  "ensureOwnerOrAdmin loggedInUser userIdFromParams =
     (case loggedInUser of
        None \<Rightarrow> NextErr TypeError
      | Some u \<Rightarrow>
          (if isAdmin u = Some True \<or> username u = userIdFromParams then Next
           else NextErr (ForbiddenError
                  (Some ''You do not have permission to access this resource''))))"

fun allows :: "outcome \<Rightarrow> bool" where
  "allows Next = True"
| "allows (NextErr e) = False"

fun signalsUnauthorized :: "outcome \<Rightarrow> bool" where
  "signalsUnauthorized (NextErr (UnauthorizedError m)) = True"
| "signalsUnauthorized r = False"

fun signalsForbidden :: "outcome \<Rightarrow> bool" where
  "signalsForbidden (NextErr (ForbiddenError m)) = True"
| "signalsForbidden r = False"

section \<open>models/job: the filter clauses of findAll\<close>

text \<open>
  \<open>queries\<close> is the parsed query string (or whatever object a caller passes): a map
  from property names to values, where a missing property reads as \<open>undefined\<close>. A
  destructuring default replaces \<open>undefined\<close> only.

  The parameters handed to the store are the wrapped words, the number \<open>0\<close> and
  \<open>Number(minSalary)\<close>. ToNumber's parsing and rounding are not modelled: the last is
  kept as the term \<open>NumberOf minSalary\<close>.
\<close>

datatype qvalue = QString string | QNumber jsnum | NumberOf jsval

record filters =
  queryValues :: "qvalue list"
  queryFilters :: "string list"

record filter_clause = filters +
  whereClause :: string

definition property :: "(string \<rightharpoonup> jsval) \<Rightarrow> string \<Rightarrow> jsval" where
  "property obj k = (case obj k of None \<Rightarrow> JUndefined | Some v \<Rightarrow> v)"

definition orDefault :: "jsval \<Rightarrow> jsval \<Rightarrow> jsval" where
  "orDefault v d = (if v = JUndefined then d else v)"

text \<open>The body of \<open>for (let word of words)\<close>.\<close>

definition pushWord :: "string \<Rightarrow> filters \<Rightarrow> filters" where
  "pushWord word st =
     \<lparr>queryValues = queryValues st @ [QString (''%'' @ word @ ''%'')],
      queryFilters = queryFilters st @ [''title ILIKE $'' @ decimal (length (queryValues st) + 1)]\<rparr>"

text \<open>
  \<open>if (title) { const words = title.split(" "); ... }\<close>. Only a string has a
  \<open>split\<close> method: on any other truthy value the call throws a \<open>TypeError\<close>.
\<close>

definition titleFilters :: "jsval \<Rightarrow> filters \<Rightarrow> error + filters" where
  "titleFilters title st =
     (if truthy title then
        (case title of
           JString s \<Rightarrow> Inr (fold pushWord (splitAt (CHR '' '') s) st)
         | _ \<Rightarrow> Inl TypeError)
      else Inr st)"

definition minSalaryFilter :: "jsval \<Rightarrow> filters \<Rightarrow> filters" where
  "minSalaryFilter minSalary st =
     (if minSalary \<noteq> JNull then
        \<lparr>queryValues = queryValues st @ [NumberOf minSalary],
         queryFilters = queryFilters st
           @ [''salary >= $'' @ decimal (length (queryValues st) + 1) @ '' '']\<rparr>
      else st)"

definition hasEquityFilter :: "bool \<Rightarrow> filters \<Rightarrow> filters" where
  "hasEquityFilter hasEquityBoolean st =
     (if hasEquityBoolean then
        \<lparr>queryValues = queryValues st @ [QNumber (Finite 0)],
         queryFilters = queryFilters st
           @ [''equity > $'' @ decimal (length (queryValues st) + 1)
              @ '' AND equity IS NOT NULL'']\<rparr>
      else st)"

definition whereClauseOf :: "string list \<Rightarrow> string" where
  "whereClauseOf fs = (if length fs > 0 then ''WHERE '' @ join '' AND '' fs else [])"

text \<open>
  \<open>findAllClauses\<close> is \<open>findAll\<close> up to the call of \<open>db.query\<close>: the result holds
  the \<open>WHERE\<close> text spliced into the statement and the parameter array passed with it.
  \<open>findAll\<close> adds the default of the parameter: called without an argument,
  \<open>queries\<close> is the empty object.
\<close>

definition findAllClauses :: "(string \<rightharpoonup> jsval) \<Rightarrow> error + filter_clause" where
  "findAllClauses queries =
     (let title = orDefault (property queries ''title'') (JString []);
          minSalary = orDefault (property queries ''minSalary'') JNull;
          hasEquity = property queries ''hasEquity'';
          hasEquityBoolean = (hasEquity = JString ''true'')
      in case titleFilters title \<lparr>queryValues = [], queryFilters = []\<rparr> of
           Inl e \<Rightarrow> Inl e
         | Inr st1 \<Rightarrow>
             (let st2 = minSalaryFilter minSalary st1;
                  st3 = hasEquityFilter hasEquityBoolean st2
              in Inr \<lparr>queryValues = queryValues st3,
                       queryFilters = queryFilters st3,
                       whereClause = whereClauseOf (queryFilters st3)\<rparr>))"


section \<open>The specification's reading of the text criterion\<close>




section \<open>The partial-update builder\<close>

lemma length_cols: "length (cols jsToSql keys) = length keys"
  by (simp add: cols_def)

lemma nth_cols: "n < length keys \<Longrightarrow> cols jsToSql keys ! n = fragment jsToSql (keys ! n) n"
  by (simp add: cols_def nth_enumerate_eq)

lemma columnName_translated: "jsToSql k = Some c \<Longrightarrow> c \<noteq> [] \<Longrightarrow> columnName jsToSql k = c"
  by (simp add: columnName_def)

lemma columnName_empty_entry: "jsToSql k = Some [] \<Longrightarrow> columnName jsToSql k = k"
  by (simp add: columnName_def)

lemma columnName_fallback:
  "jsToSql k = None \<Longrightarrow> k \<notin> fst ` set objectPrototype \<Longrightarrow> columnName jsToSql k = k"
proof -
  assume own: "jsToSql k = None" and k: "k \<notin> fst ` set objectPrototype"
  from k have "map_of objectPrototype k = None" by (simp add: map_of_eq_None_iff)
  with own show ?thesis by (simp add: columnName_def)
qed

lemma sqlForPartialUpdate_setCols:
  "sqlForPartialUpdate dataToUpdate jsToSql = Inr r \<Longrightarrow>
     setCols r = join '', '' (cols jsToSql (map fst dataToUpdate))"
  by (auto simp: sqlForPartialUpdate_def Let_def split: if_splits)

text \<open>
  C1, as the code has it. For every non-empty update object and every translation table
  the builder returns: \<open>setCols\<close> is the fragments joined by \<open>", "\<close>, one fragment per
  key in the order of \<open>Object.keys\<close>, and \<open>values\<close> holds the value of the Nth key at
  position N. The Nth fragment is \<open>"<column>"=$N\<close>, where \<open><column>\<close> is the table's
  entry for the Nth key when that entry is a non-empty string, and the key's own name when
  the entry is the empty string, or when there is no entry and the key is not the name of
  a property that every object inherits from \<open>Object.prototype\<close>.
\<close>

theorem sqlForPartialUpdate_fragments:
  assumes "dataToUpdate \<noteq> []"
  shows "sqlForPartialUpdate dataToUpdate jsToSql =
           Inr \<lparr>setCols = join '', '' (cols jsToSql (map fst dataToUpdate)),
                values' = map snd dataToUpdate\<rparr>
       \<and> length (cols jsToSql (map fst dataToUpdate)) = length dataToUpdate
       \<and> (\<forall>n < length dataToUpdate.
             map snd dataToUpdate ! n = snd (dataToUpdate ! n)
           \<and> (\<forall>c. jsToSql (fst (dataToUpdate ! n)) = Some c \<and> c \<noteq> [] \<longrightarrow>
                 cols jsToSql (map fst dataToUpdate) ! n
                   = [CHR 0x22] @ c @ [CHR 0x22] @ ''=$'' @ decimal (n + 1))
           \<and> (jsToSql (fst (dataToUpdate ! n)) = Some [] \<or>
                jsToSql (fst (dataToUpdate ! n)) = None
                  \<and> fst (dataToUpdate ! n) \<notin> fst ` set objectPrototype \<longrightarrow>
                 cols jsToSql (map fst dataToUpdate) ! n
                   = [CHR 0x22] @ fst (dataToUpdate ! n) @ [CHR 0x22] @ ''=$'' @ decimal (n + 1)))"
proof (intro conjI allI impI)
  show "sqlForPartialUpdate dataToUpdate jsToSql =
           Inr \<lparr>setCols = join '', '' (cols jsToSql (map fst dataToUpdate)),
                values' = map snd dataToUpdate\<rparr>"
    using assms by (simp add: sqlForPartialUpdate_def)
next
  show "length (cols jsToSql (map fst dataToUpdate)) = length dataToUpdate"
    by (simp add: length_cols)
next
  fix n assume "n < length dataToUpdate"
  then show "map snd dataToUpdate ! n = snd (dataToUpdate ! n)" by simp
next
  fix n c
  assume n: "n < length dataToUpdate"
    and c: "jsToSql (fst (dataToUpdate ! n)) = Some c \<and> c \<noteq> []"
  from n have "cols jsToSql (map fst dataToUpdate) ! n = fragment jsToSql (fst (dataToUpdate ! n)) n"
    by (simp add: nth_cols)
  with c show "cols jsToSql (map fst dataToUpdate) ! n
                   = [CHR 0x22] @ c @ [CHR 0x22] @ ''=$'' @ decimal (n + 1)"
    by (simp add: fragment_def columnName_translated)
next
  fix n
  assume n: "n < length dataToUpdate"
    and k: "jsToSql (fst (dataToUpdate ! n)) = Some [] \<or>
                jsToSql (fst (dataToUpdate ! n)) = None
                  \<and> fst (dataToUpdate ! n) \<notin> fst ` set objectPrototype"
  from n have "cols jsToSql (map fst dataToUpdate) ! n = fragment jsToSql (fst (dataToUpdate ! n)) n"
    by (simp add: nth_cols)
  moreover from k have "columnName jsToSql (fst (dataToUpdate ! n)) = fst (dataToUpdate ! n)"
    by (auto simp: columnName_empty_entry columnName_fallback)
  ultimately show "cols jsToSql (map fst dataToUpdate) ! n
                   = [CHR 0x22] @ fst (dataToUpdate ! n) @ [CHR 0x22] @ ''=$'' @ decimal (n + 1)"
    by (simp add: fragment_def)
qed

text \<open>
  The theorem at \<open>{firstName: "Aliya", age: "32", email: "a@b.c"}\<close> with the table
  \<open>{firstName: "first_name", email: ""}\<close>: a translated key, an untranslated key and a
  key whose entry is empty.
\<close>

theorem sqlForPartialUpdate_fragments_witness:
  "sqlForPartialUpdate [(''firstName'', ''Aliya''), (''age'', ''32''), (''email'', ''a@b.c'')]
      [''firstName'' \<mapsto> ''first_name'', ''email'' \<mapsto> []]
     = Inr \<lparr>setCols = join '', '' (cols [''firstName'' \<mapsto> ''first_name'', ''email'' \<mapsto> []]
                                        [''firstName'', ''age'', ''email'']),
            values' = [''Aliya'', ''32'', ''a@b.c'']\<rparr>
   \<and> cols [''firstName'' \<mapsto> ''first_name'', ''email'' \<mapsto> []] [''firstName'', ''age'', ''email''] ! 0
       = [CHR 0x22] @ ''first_name'' @ [CHR 0x22] @ ''=$1''
   \<and> cols [''firstName'' \<mapsto> ''first_name'', ''email'' \<mapsto> []] [''firstName'', ''age'', ''email''] ! 1
       = [CHR 0x22] @ ''age'' @ [CHR 0x22] @ ''=$2''
   \<and> cols [''firstName'' \<mapsto> ''first_name'', ''email'' \<mapsto> []] [''firstName'', ''age'', ''email''] ! 2
       = [CHR 0x22] @ ''email'' @ [CHR 0x22] @ ''=$3''"
proof -
  let ?d = "[(''firstName'', ''Aliya''), (''age'', ''32''), (''email'', ''a@b.c'')]"
  let ?t = "[''firstName'' \<mapsto> ''first_name'', ''email'' \<mapsto> []]"
  have ne: "?d \<noteq> []" by simp
  note th = sqlForPartialUpdate_fragments [OF ne, of ?t]
  note nth = th [THEN conjunct2, THEN conjunct2, rule_format]
  have d: "decimal (0 + 1) = ''1''" "decimal (1 + 1) = ''2''" "decimal (2 + 1) = ''3''"
    by code_simp+
  have age: "''age'' \<notin> fst ` set objectPrototype" by (simp add: objectPrototype_def)
  have c0: "cols ?t (map fst ?d) ! 0 = [CHR 0x22] @ ''first_name'' @ [CHR 0x22] @ ''=$'' @ decimal (0 + 1)"
    using nth [of 0, THEN conjunct2, THEN conjunct1, rule_format, of "''first_name''"] by simp
  have c1: "cols ?t (map fst ?d) ! 1 = [CHR 0x22] @ ''age'' @ [CHR 0x22] @ ''=$'' @ decimal (1 + 1)"
    using nth [of 1, THEN conjunct2, THEN conjunct2, rule_format] age by simp
  have c2: "cols ?t (map fst ?d) ! 2 = [CHR 0x22] @ ''email'' @ [CHR 0x22] @ ''=$'' @ decimal (2 + 1)"
    using nth [of 2, THEN conjunct2, THEN conjunct2, rule_format] by simp
  show ?thesis using th [THEN conjunct1] c0 c1 c2 unfolding d by simp
qed

text \<open>
  C1 as it is worded fails in two places. With the table \<open>{firstName: ""}\<close> an entry
  for \<open>firstName\<close> exists, yet \<open>||\<close> takes the empty string for absent and the column
  is the key, \<open>"firstName"=$1\<close>, not \<open>""=$1\<close>. With the empty table and the key
  \<open>constructor\<close> there is no entry, yet the lookup finds the inherited
  \<open>Object.prototype.constructor\<close> and the column is that function's text, not the key's
  own name.
\<close>

theorem sqlForPartialUpdate_fragments_counterexample:
  "sqlForPartialUpdate [(''firstName'', ''Aliya'')] [''firstName'' \<mapsto> []]
     = Inr \<lparr>setCols = [CHR 0x22] @ ''firstName'' @ [CHR 0x22] @ ''=$1'', values' = [''Aliya'']\<rparr>
   \<and> sqlForPartialUpdate [(''firstName'', ''Aliya'')] [''firstName'' \<mapsto> []]
     \<noteq> Inr \<lparr>setCols = [CHR 0x22] @ [] @ [CHR 0x22] @ ''=$1'', values' = [''Aliya'']\<rparr>
   \<and> sqlForPartialUpdate [(''constructor'', ''x'')] Map.empty
     = Inr \<lparr>setCols = [CHR 0x22] @ ''function Object() { [native code] }'' @ [CHR 0x22] @ ''=$1'',
            values' = [''x'']\<rparr>
   \<and> sqlForPartialUpdate [(''constructor'', ''x'')] Map.empty
     \<noteq> Inr \<lparr>setCols = [CHR 0x22] @ ''constructor'' @ [CHR 0x22] @ ''=$1'', values' = [''x'']\<rparr>"
  by (simp add: sqlForPartialUpdate_def cols_def enumerate_eq_zip fragment_def columnName_def
      objectPrototype_def decimal.simps digit_def)

text \<open>
  C9. For the empty update object the partial-update builder fails with the bad-request
  error "No data", whatever the translation table holds; it never returns a result.
\<close>

theorem sqlForPartialUpdate_empty:
  "sqlForPartialUpdate [] jsToSql = Inl (BadRequestError (Some ''No data''))"
  by (simp add: sqlForPartialUpdate_def)

theorem sqlForPartialUpdate_empty_witness:
  "sqlForPartialUpdate ([] :: (string \<times> string) list) [''firstName'' \<mapsto> ''first_name'', ''age'' \<mapsto> ''age'']
     = Inl (BadRequestError (Some ''No data''))"
  by (rule sqlForPartialUpdate_empty)

section \<open>The filter clauses\<close>





text \<open>The loop over the words appends one value and one predicate per word.\<close>

lemma fold_pushWord:
  "queryValues (fold pushWord ws st)
     = queryValues st @ map (\<lambda>w. QString (''%'' @ w @ ''%'')) ws
   \<and> queryFilters (fold pushWord ws st)
     = queryFilters st
       @ map (\<lambda>i. ''title ILIKE $'' @ decimal (length (queryValues st) + i + 1)) [0..<length ws]"
proof (induction ws arbitrary: st)
  case Nil
  then show ?case by simp
next
  case (Cons w ws)
  have "queryValues (pushWord w st) = queryValues st @ [QString (''%'' @ w @ ''%'')]"
    and "queryFilters (pushWord w st)
         = queryFilters st @ [''title ILIKE $'' @ decimal (length (queryValues st) + 1)]"
    by (simp_all add: pushWord_def)
  with Cons.IH [of "pushWord w st"] show ?case
    by (simp add: map_upt_Suc del: upt_Suc)
qed


lemma titleFilters_shape:
  assumes "titleFilters title \<lparr>queryValues = [], queryFilters = []\<rparr> = Inr st"
  shows "\<exists>ws. queryValues st = map (\<lambda>word. QString (''%'' @ word @ ''%'')) ws
            \<and> queryFilters st = map (\<lambda>i. ''title ILIKE $'' @ decimal (i + 1)) [0..<length ws]"
proof (cases "truthy title")
  case False
  with assms have "st = \<lparr>queryValues = [], queryFilters = []\<rparr>"
    by (simp add: titleFilters_def)
  then have "queryValues st = map (\<lambda>word. QString (''%'' @ word @ ''%'')) []
            \<and> queryFilters st = map (\<lambda>i. ''title ILIKE $'' @ decimal (i + 1)) [0..<length ([]::string list)]"
    by simp
  then show ?thesis by blast
next
  case True
  with assms obtain s where s: "title = JString s"
    by (cases title) (simp_all add: titleFilters_def)
  with assms True have "st = fold pushWord (splitAt (CHR '' '') s) \<lparr>queryValues = [], queryFilters = []\<rparr>"
    by (simp add: titleFilters_def)
  then have "queryValues st = map (\<lambda>word. QString (''%'' @ word @ ''%'')) (splitAt (CHR '' '') s)
            \<and> queryFilters st = map (\<lambda>i. ''title ILIKE $'' @ decimal (i + 1)) [0..<length (splitAt (CHR '' '') s)]"
    using fold_pushWord [of "splitAt (CHR '' '') s" "\<lparr>queryValues = [], queryFilters = []\<rparr>"] by simp
  then show ?thesis by blast
qed

text \<open>
  Whatever \<open>findAllClauses\<close> returns has this shape: \<open>n\<close> title predicates, then the
  salary predicate if \<open>minSalary\<close> is not \<open>null\<close>, then the equity predicate if
  \<open>hasEquity\<close> is \<open>"true"\<close>, numbered from 1 without gaps.
\<close>

lemma findAllClauses_shape:
  assumes "findAllClauses queries = Inr r"
  shows "\<exists>n. length (queryValues r)
               = n + (if orDefault (property queries ''minSalary'') JNull \<noteq> JNull then 1 else 0)
                   + (if property queries ''hasEquity'' = JString ''true'' then 1 else 0)
           \<and> queryFilters r
               = map (\<lambda>i. ''title ILIKE $'' @ decimal (i + 1)) [0..<n]
                 @ (if orDefault (property queries ''minSalary'') JNull \<noteq> JNull
                    then [''salary >= $'' @ decimal (n + 1) @ '' ''] else [])
                 @ (if property queries ''hasEquity'' = JString ''true''
                    then [''equity > $''
                          @ decimal (n + (if orDefault (property queries ''minSalary'') JNull \<noteq> JNull
                                          then 1 else 0) + 1)
                          @ '' AND equity IS NOT NULL''] else [])
           \<and> whereClause r = whereClauseOf (queryFilters r)"
proof -
  from assms obtain st where
    st: "titleFilters (orDefault (property queries ''title'') (JString []))
           \<lparr>queryValues = [], queryFilters = []\<rparr> = Inr st"
    by (auto simp: findAllClauses_def Let_def split: sum.splits)
  from titleFilters_shape [OF st] obtain ws where
    v: "queryValues st = map (\<lambda>word. QString (''%'' @ word @ ''%'')) ws" and
    f: "queryFilters st = map (\<lambda>i. ''title ILIKE $'' @ decimal (i + 1)) [0..<length ws]"
    by blast
  from assms st have r: "r = \<lparr>queryValues = queryValues
             (hasEquityFilter (property queries ''hasEquity'' = JString ''true'')
               (minSalaryFilter (orDefault (property queries ''minSalary'') JNull) st)),
          queryFilters = queryFilters
             (hasEquityFilter (property queries ''hasEquity'' = JString ''true'')
               (minSalaryFilter (orDefault (property queries ''minSalary'') JNull) st)),
          whereClause = whereClauseOf (queryFilters
             (hasEquityFilter (property queries ''hasEquity'' = JString ''true'')
               (minSalaryFilter (orDefault (property queries ''minSalary'') JNull) st)))\<rparr>"
    by (simp add: findAllClauses_def Let_def)
  show ?thesis
    by (rule exI [of _ "length ws"])
       (simp add: r v f minSalaryFilter_def hasEquityFilter_def)
qed


lemma minSalary_active:
  "(orDefault (property queries ''minSalary'') JNull \<noteq> JNull)
     = (queries ''minSalary'' \<notin> {None, Some JUndefined, Some JNull})"
  by (auto simp: orDefault_def property_def split: option.splits)

lemma hasEquity_active:
  "(property queries ''hasEquity'' = JString ''true'')
     = (queries ''hasEquity'' = Some (JString ''true''))"
  by (auto simp: property_def split: option.splits)





lemma findAllClauses_hasEquity_cong:
  assumes "queries' ''title'' = queries ''title''"
    and "queries' ''minSalary'' = queries ''minSalary''"
    and "(property queries' ''hasEquity'' = JString ''true'')
           = (property queries ''hasEquity'' = JString ''true'')"
  shows "findAllClauses queries' = findAllClauses queries"
proof -
  have t: "property queries' ''title'' = property queries ''title''"
    using assms(1) by (simp add: property_def)
  have m: "property queries' ''minSalary'' = property queries ''minSalary''"
    using assms(2) by (simp add: property_def)
  show ?thesis
    unfolding findAllClauses_def Let_def by (simp only: t m assms(3))
qed

text \<open>
  C7. The boolean criterion is active only for the exact string \<open>"true"\<close>. With any
  other value of \<open>hasEquity\<close> (the boolean \<open>true\<close>, \<open>"false"\<close>, \<open>"yes"\<close>, an array,
  anything) the builder does exactly what it does when the key is absent. With
  \<open>"true"\<close> it does what it does without the key and then appends one predicate,
  \<open>equity > $k AND equity IS NOT NULL\<close>, and the parameter \<open>0\<close> at position \<open>k\<close>:
  the column must be non-null and strictly greater than zero.
\<close>

theorem findAll_hasEquity:
  "(v \<noteq> JString ''true'' \<longrightarrow>
      findAllClauses (queries(''hasEquity'' \<mapsto> v)) = findAllClauses (queries(''hasEquity'' := None)))
   \<and> findAllClauses (queries(''hasEquity'' \<mapsto> JString ''true'')) =
       (case findAllClauses (queries(''hasEquity'' := None)) of
          Inl e \<Rightarrow> Inl e
        | Inr r \<Rightarrow>
            Inr \<lparr>queryValues = queryValues r @ [QNumber (Finite 0)],
                 queryFilters = queryFilters r
                   @ [''equity > $'' @ decimal (length (queryValues r) + 1)
                      @ '' AND equity IS NOT NULL''],
                 whereClause = ''WHERE '' @ join '' AND ''
                   (queryFilters r
                    @ [''equity > $'' @ decimal (length (queryValues r) + 1)
                       @ '' AND equity IS NOT NULL''])\<rparr>)"
proof (intro conjI impI)
  assume "v \<noteq> JString ''true''"
  then show "findAllClauses (queries(''hasEquity'' \<mapsto> v))
               = findAllClauses (queries(''hasEquity'' := None))"
    by (intro findAllClauses_hasEquity_cong) (simp_all add: property_def)
next
  show "findAllClauses (queries(''hasEquity'' \<mapsto> JString ''true'')) =
       (case findAllClauses (queries(''hasEquity'' := None)) of
          Inl e \<Rightarrow> Inl e
        | Inr r \<Rightarrow>
            Inr \<lparr>queryValues = queryValues r @ [QNumber (Finite 0)],
                 queryFilters = queryFilters r
                   @ [''equity > $'' @ decimal (length (queryValues r) + 1)
                      @ '' AND equity IS NOT NULL''],
                 whereClause = ''WHERE '' @ join '' AND ''
                   (queryFilters r
                    @ [''equity > $'' @ decimal (length (queryValues r) + 1)
                       @ '' AND equity IS NOT NULL''])\<rparr>)"
    by (simp add: findAllClauses_def Let_def property_def hasEquityFilter_def whereClauseOf_def
        split: sum.splits)
qed

text \<open>
  The theorem at \<open>{minSalary: 40000}\<close> extended by \<open>hasEquity\<close>: the boolean
  \<open>true\<close> and the string \<open>"yes"\<close> change nothing, the string \<open>"true"\<close> adds the
  equity predicate as the second one.
\<close>

theorem findAll_hasEquity_witness:
  "findAllClauses [''minSalary'' \<mapsto> JNumber (Finite 40000), ''hasEquity'' \<mapsto> JBool True]
     = findAllClauses [''minSalary'' \<mapsto> JNumber (Finite 40000)]
   \<and> findAllClauses [''minSalary'' \<mapsto> JNumber (Finite 40000), ''hasEquity'' \<mapsto> JString ''yes'']
     = findAllClauses [''minSalary'' \<mapsto> JNumber (Finite 40000)]
   \<and> findAllClauses [''minSalary'' \<mapsto> JNumber (Finite 40000), ''hasEquity'' \<mapsto> JString ''true'']
     = Inr \<lparr>queryValues = [NumberOf (JNumber (Finite 40000)), QNumber (Finite 0)],
            queryFilters = [''salary >= $1 '', ''equity > $2 AND equity IS NOT NULL''],
            whereClause = ''WHERE salary >= $1  AND equity > $2 AND equity IS NOT NULL''\<rparr>"
proof -
  let ?q = "[''minSalary'' \<mapsto> JNumber (Finite 40000)]"
  have absent: "?q(''hasEquity'' := None) = ?q" by (simp add: fun_eq_iff)
  have base: "findAllClauses ?q
     = Inr \<lparr>queryValues = [NumberOf (JNumber (Finite 40000))],
            queryFilters = [''salary >= $1 ''],
            whereClause = ''WHERE salary >= $1 ''\<rparr>"
    by (simp add: findAllClauses_def property_def orDefault_def titleFilters_def
        minSalaryFilter_def hasEquityFilter_def whereClauseOf_def decimal.simps digit_def)
  have d: "decimal (Suc (Suc 0)) = ''2''" by (simp add: decimal.simps digit_def)
  have b: "JBool True \<noteq> JString ''true''" and y: "JString ''yes'' \<noteq> JString ''true''"
    by simp_all
  from findAll_hasEquity [of "JBool True" ?q, THEN conjunct1, rule_format, OF b]
  have 1: "findAllClauses (?q(''hasEquity'' \<mapsto> JBool True)) = findAllClauses ?q"
    unfolding absent .
  from findAll_hasEquity [of "JString ''yes''" ?q, THEN conjunct1, rule_format, OF y]
  have 2: "findAllClauses (?q(''hasEquity'' \<mapsto> JString ''yes'')) = findAllClauses ?q"
    unfolding absent .
  from findAll_hasEquity [of JNull ?q, THEN conjunct2]
  have 3: "findAllClauses (?q(''hasEquity'' \<mapsto> JString ''true''))
     = Inr \<lparr>queryValues = [NumberOf (JNumber (Finite 40000)), QNumber (Finite 0)],
            queryFilters = [''salary >= $1 '', ''equity > $2 AND equity IS NOT NULL''],
            whereClause = ''WHERE salary >= $1  AND equity > $2 AND equity IS NOT NULL''\<rparr>"
    unfolding absent base by (simp add: d)
  from 1 2 3 show ?thesis by simp
qed








section \<open>Values travel in the parameter list only\<close>

lemma update_text_from_keys:
  assumes "sqlForPartialUpdate dataToUpdate jsToSql = Inr u"
    and "sqlForPartialUpdate dataToUpdate' jsToSql = Inr u'"
    and "map fst dataToUpdate = map fst dataToUpdate'"
  shows "setCols u = setCols u'"
  using assms sqlForPartialUpdate_setCols [of dataToUpdate jsToSql u]
    sqlForPartialUpdate_setCols [of dataToUpdate' jsToSql u']
  by simp

lemma filter_text_from_shape:
  assumes r: "findAllClauses queries = Inr r" and r': "findAllClauses queries' = Inr r'"
    and len: "length (queryValues r) = length (queryValues r')"
    and sal: "(queries ''minSalary'' \<in> {None, Some JUndefined, Some JNull})
          = (queries' ''minSalary'' \<in> {None, Some JUndefined, Some JNull})"
    and eq: "(queries ''hasEquity'' = Some (JString ''true''))
          = (queries' ''hasEquity'' = Some (JString ''true''))"
  shows "queryFilters r = queryFilters r' \<and> whereClause r = whereClause r'"
proof -
  from sal eq have m: "(orDefault (property queries ''minSalary'') JNull \<noteq> JNull)
      = (orDefault (property queries' ''minSalary'') JNull \<noteq> JNull)"
    and h: "(property queries ''hasEquity'' = JString ''true'')
      = (property queries' ''hasEquity'' = JString ''true'')"
    by (simp_all only: minSalary_active hasEquity_active)
  from findAllClauses_shape [OF r] obtain n where
    n: "length (queryValues r)
               = n + (if orDefault (property queries ''minSalary'') JNull \<noteq> JNull then 1 else 0)
                   + (if property queries ''hasEquity'' = JString ''true'' then 1 else 0)"
    and fs: "queryFilters r
               = map (\<lambda>i. ''title ILIKE $'' @ decimal (i + 1)) [0..<n]
                 @ (if orDefault (property queries ''minSalary'') JNull \<noteq> JNull
                    then [''salary >= $'' @ decimal (n + 1) @ '' ''] else [])
                 @ (if property queries ''hasEquity'' = JString ''true''
                    then [''equity > $''
                          @ decimal (n + (if orDefault (property queries ''minSalary'') JNull \<noteq> JNull
                                          then 1 else 0) + 1)
                          @ '' AND equity IS NOT NULL''] else [])"
    and w: "whereClause r = whereClauseOf (queryFilters r)"
    by blast
  from findAllClauses_shape [OF r'] obtain n' where
    n': "length (queryValues r')
               = n' + (if orDefault (property queries' ''minSalary'') JNull \<noteq> JNull then 1 else 0)
                   + (if property queries' ''hasEquity'' = JString ''true'' then 1 else 0)"
    and fs': "queryFilters r'
               = map (\<lambda>i. ''title ILIKE $'' @ decimal (i + 1)) [0..<n']
                 @ (if orDefault (property queries' ''minSalary'') JNull \<noteq> JNull
                    then [''salary >= $'' @ decimal (n' + 1) @ '' ''] else [])
                 @ (if property queries' ''hasEquity'' = JString ''true''
                    then [''equity > $''
                          @ decimal (n' + (if orDefault (property queries' ''minSalary'') JNull \<noteq> JNull
                                          then 1 else 0) + 1)
                          @ '' AND equity IS NOT NULL''] else [])"
    and w': "whereClause r' = whereClauseOf (queryFilters r')"
    by blast
  from len n n' m h have "n = n'" by (simp split: if_splits)
  with fs fs' m h have "queryFilters r = queryFilters r'" by simp
  with w w' show ?thesis by simp
qed

lemma findAllClauses_templates:
  assumes "findAllClauses queries = Inr r" and "i < length (queryFilters r)"
  shows "queryFilters r ! i = ''title ILIKE $'' @ decimal (i + 1)
       \<or> queryFilters r ! i = ''salary >= $'' @ decimal (i + 1) @ '' ''
       \<or> queryFilters r ! i = ''equity > $'' @ decimal (i + 1) @ '' AND equity IS NOT NULL''"
proof -
  from findAllClauses_shape [OF assms(1)] obtain n where
    fs: "queryFilters r
               = map (\<lambda>i. ''title ILIKE $'' @ decimal (i + 1)) [0..<n]
                 @ (if orDefault (property queries ''minSalary'') JNull \<noteq> JNull
                    then [''salary >= $'' @ decimal (n + 1) @ '' ''] else [])
                 @ (if property queries ''hasEquity'' = JString ''true''
                    then [''equity > $''
                          @ decimal (n + (if orDefault (property queries ''minSalary'') JNull \<noteq> JNull
                                          then 1 else 0) + 1)
                          @ '' AND equity IS NOT NULL''] else [])"
    by blast
  show ?thesis
    using assms(2) unfolding fs
    by (auto simp: nth_append less_Suc_eq split: if_splits)
qed

text \<open>
  C2. No value is written into the clause text; the text is made of column names, fixed
  words and placeholder numbers.

  For the update builder, in the two-run form: two update objects with the same keys in
  the same order, whatever their values, give the same \<open>setCols\<close> text under the same
  translation table.

  For the filter builder: every predicate it returns is one of three fixed templates with
  nothing but its own position written into it, and the \<open>WHERE\<close> text is these
  predicates joined by \<open>AND\<close>. In the two-run form: two query objects with the same
  active criteria and equally many parameters give the same predicates and the same
  \<open>WHERE\<close> text, whatever the values.
\<close>

theorem values_not_in_clause_text:
  "(sqlForPartialUpdate dataToUpdate jsToSql = Inr u
      \<and> sqlForPartialUpdate dataToUpdate' jsToSql = Inr u'
      \<and> map fst dataToUpdate = map fst dataToUpdate'
      \<longrightarrow> setCols u = setCols u')
   \<and> (findAllClauses queries = Inr r \<longrightarrow>
        whereClause r = whereClauseOf (queryFilters r)
      \<and> (\<forall>i < length (queryFilters r).
            queryFilters r ! i = ''title ILIKE $'' @ decimal (i + 1)
          \<or> queryFilters r ! i = ''salary >= $'' @ decimal (i + 1) @ '' ''
          \<or> queryFilters r ! i = ''equity > $'' @ decimal (i + 1) @ '' AND equity IS NOT NULL''))
   \<and> (findAllClauses queries = Inr r \<and> findAllClauses queries' = Inr r'
      \<and> length (queryValues r) = length (queryValues r')
      \<and> (queries ''minSalary'' \<in> {None, Some JUndefined, Some JNull})
          = (queries' ''minSalary'' \<in> {None, Some JUndefined, Some JNull})
      \<and> (queries ''hasEquity'' = Some (JString ''true''))
          = (queries' ''hasEquity'' = Some (JString ''true''))
      \<longrightarrow> queryFilters r = queryFilters r' \<and> whereClause r = whereClause r')"
proof -
  have "findAllClauses queries = Inr r \<Longrightarrow> whereClause r = whereClauseOf (queryFilters r)"
    using findAllClauses_shape [of queries r] by blast
  then show ?thesis
    using update_text_from_keys [of dataToUpdate jsToSql u dataToUpdate' u']
      filter_text_from_shape [of queries r queries' r']
      findAllClauses_templates [of queries r]
    by blast
qed

text \<open>
  The theorem at two update objects with the key \<open>firstName\<close> and different values,
  and at the query objects \<open>{title: "soft eng"}\<close> and \<open>{title: "data sci"}\<close>.
\<close>

theorem values_not_in_clause_text_witness:
  "map_sum id setCols (sqlForPartialUpdate [(''firstName'', ''Aliya'')] [''firstName'' \<mapsto> ''first_name''])
     = map_sum id setCols (sqlForPartialUpdate [(''firstName'', ''Robert'')] [''firstName'' \<mapsto> ''first_name''])
   \<and> map_sum id whereClause (findAllClauses [''title'' \<mapsto> JString ''soft eng''])
     = map_sum id whereClause (findAllClauses [''title'' \<mapsto> JString ''data sci''])
   \<and> map_sum id (\<lambda>r. queryFilters r ! 1) (findAllClauses [''title'' \<mapsto> JString ''soft eng''])
     = Inr ''title ILIKE $2''"
proof -
  let ?t = "[''firstName'' \<mapsto> ''first_name'']"
  let ?u = "\<lparr>setCols = join '', '' (cols ?t [''firstName'']), values' = [''Aliya'']\<rparr>"
  let ?u' = "\<lparr>setCols = join '', '' (cols ?t [''firstName'']), values' = [''Robert'']\<rparr>"
  let ?q = "[''title'' \<mapsto> JString ''soft eng'']"
  let ?q' = "[''title'' \<mapsto> JString ''data sci'']"
  let ?r = "\<lparr>queryValues = [QString ''%soft%'', QString ''%eng%''],
            queryFilters = [''title ILIKE $1'', ''title ILIKE $2''],
            whereClause = ''WHERE title ILIKE $1 AND title ILIKE $2''\<rparr>"
  let ?r' = "\<lparr>queryValues = [QString ''%data%'', QString ''%sci%''],
            queryFilters = [''title ILIKE $1'', ''title ILIKE $2''],
            whereClause = ''WHERE title ILIKE $1 AND title ILIKE $2''\<rparr>"
  have u: "sqlForPartialUpdate [(''firstName'', ''Aliya'')] ?t = Inr ?u"
    and u': "sqlForPartialUpdate [(''firstName'', ''Robert'')] ?t = Inr ?u'"
    by (simp_all add: sqlForPartialUpdate_def)
  have r: "findAllClauses ?q = Inr ?r" and r': "findAllClauses ?q' = Inr ?r'"
    by (simp_all add: findAllClauses_def property_def orDefault_def titleFilters_def pushWord_def
        minSalaryFilter_def hasEquityFilter_def whereClauseOf_def decimal.simps digit_def)
  note th = values_not_in_clause_text
    [of "[(''firstName'', ''Aliya'')]" ?t ?u "[(''firstName'', ''Robert'')]" ?u' ?q ?r ?q' ?r']
  from th [THEN conjunct1] u u' have 1: "setCols ?u = setCols ?u'" by simp
  from th [THEN conjunct2, THEN conjunct2] r r' have 2: "whereClause ?r = whereClause ?r'" by simp
  have "queryFilters ?r ! 1 = ''title ILIKE $'' @ decimal (1 + 1)
          \<or> queryFilters ?r ! 1 = ''salary >= $'' @ decimal (1 + 1) @ '' ''
          \<or> queryFilters ?r ! 1 = ''equity > $'' @ decimal (1 + 1) @ '' AND equity IS NOT NULL''"
    using th [THEN conjunct2, THEN conjunct1, rule_format, OF r, THEN conjunct2, rule_format, of 1]
    by simp
  then have 3: "queryFilters ?r ! 1 = ''title ILIKE $2''"
    by (simp add: decimal.simps digit_def)
  from 1 2 3 show ?thesis
    unfolding u u' r r' by simp
qed

section \<open>The guards\<close>

text \<open>
  C10, as the code has it. \<open>ensureLoggedIn\<close> calls \<open>next()\<close> exactly when a token
  payload is attached to the response, whatever fields the payload carries, and signals
  \<open>UnauthorizedError\<close> when none is.
\<close>

theorem ensureLoggedIn_payload:
  "(allows (ensureLoggedIn user) \<longleftrightarrow> user \<noteq> None)
   \<and> (user = None \<longrightarrow> ensureLoggedIn user = NextErr (UnauthorizedError None))"
  by (cases user) (simp_all add: ensureLoggedIn_def)

theorem ensureLoggedIn_payload_witness:
  "allows (ensureLoggedIn (Some \<lparr>username = Some ''u1'', isAdmin = Some False\<rparr>))
   \<and> ensureLoggedIn None = NextErr (UnauthorizedError None)
   \<and> signalsUnauthorized (ensureLoggedIn None)"
  using ensureLoggedIn_payload [of "Some \<lparr>username = Some ''u1'', isAdmin = Some False\<rparr>"]
    ensureLoggedIn_payload [of None]
  by simp

text \<open>
  C10 as it is worded fails: the guard tests the payload, not its \<open>username\<close>. A
  payload without a \<open>username\<close> field, \<open>{isAdmin: false}\<close>, is let through.
\<close>

theorem ensureLoggedIn_payload_counterexample:
  "username \<lparr>username = None, isAdmin = Some False\<rparr> = None
   \<and> ensureLoggedIn (Some \<lparr>username = None, isAdmin = Some False\<rparr>) = Next
   \<and> \<not> signalsUnauthorized (ensureLoggedIn (Some \<lparr>username = None, isAdmin = Some False\<rparr>))"
  by (simp add: ensureLoggedIn_def)

text \<open>
  C5. \<open>ensureAdmin\<close> tells its two failures apart. With no token payload attached (the
  anonymous actor) it signals \<open>UnauthorizedError\<close>; with a payload whose \<open>isAdmin\<close>
  is not \<open>true\<close> it signals \<open>ForbiddenError\<close>; with a payload whose \<open>isAdmin\<close> is
  \<open>true\<close> it calls \<open>next()\<close>.
\<close>

theorem ensureAdmin_outcomes:
  "ensureAdmin None = NextErr (UnauthorizedError (Some ''No token provided or invalid token''))
   \<and> (isAdmin u \<noteq> Some True \<longrightarrow>
        ensureAdmin (Some u) = NextErr (ForbiddenError (Some ''User must be admin'')))
   \<and> (isAdmin u = Some True \<longrightarrow> ensureAdmin (Some u) = Next)"
  by (simp add: ensureAdmin_def)

theorem ensureAdmin_outcomes_witness:
  "signalsUnauthorized (ensureAdmin None)
   \<and> signalsForbidden (ensureAdmin (Some \<lparr>username = Some ''u1'', isAdmin = Some False\<rparr>))
   \<and> allows (ensureAdmin (Some \<lparr>username = Some ''admin'', isAdmin = Some True\<rparr>))"
  using ensureAdmin_outcomes [of "\<lparr>username = Some ''u1'', isAdmin = Some False\<rparr>"]
    ensureAdmin_outcomes [of "\<lparr>username = Some ''admin'', isAdmin = Some True\<rparr>"]
  by simp

text \<open>
  C3. For an actor that is not an admin, \<open>ensureOwnerOrAdmin\<close> is to deny with
  \<open>ForbiddenError\<close> unless the actor's \<open>username\<close> is the \<open>:username\<close> of the
  path. The code does so for every authenticated actor (a token payload is attached):
  names that differ give \<open>ForbiddenError\<close>, equal names give \<open>next()\<close>. For the
  anonymous actor it does not: with no payload attached the guard reads \<open>isAdmin\<close> of
  \<open>undefined\<close>, and what reaches \<open>next\<close> is the runtime's \<open>TypeError\<close>. The
  request is still denied, but not with \<open>ForbiddenError\<close>, whatever the path names.
  The sibling guard \<open>ensureAdmin\<close> tests the payload first and answers the same actor
  with \<open>UnauthorizedError\<close>.
\<close>

theorem ensureOwnerOrAdmin_outcomes:
  "ensureOwnerOrAdmin None owner = NextErr TypeError
   \<and> \<not> allows (ensureOwnerOrAdmin None owner)
   \<and> \<not> signalsForbidden (ensureOwnerOrAdmin None owner)
   \<and> signalsUnauthorized (ensureAdmin None)
   \<and> (isAdmin u \<noteq> Some True \<and> username u \<noteq> owner \<longrightarrow>
       ensureOwnerOrAdmin (Some u) owner
         = NextErr (ForbiddenError (Some ''You do not have permission to access this resource''))
       \<and> signalsForbidden (ensureOwnerOrAdmin (Some u) owner))
   \<and> (isAdmin u \<noteq> Some True \<and> username u = owner \<longrightarrow>
       ensureOwnerOrAdmin (Some u) owner = Next)"
  by (simp add: ensureOwnerOrAdmin_def ensureAdmin_def)

text \<open>
  The theorem at the anonymous actor and at the actors \<open>u3\<close> and \<open>u1\<close>, all asking
  for \<open>/users/u1\<close>.
\<close>

theorem ensureOwnerOrAdmin_outcomes_witness:
  "ensureOwnerOrAdmin None (Some ''u1'') = NextErr TypeError
   \<and> \<not> signalsForbidden (ensureOwnerOrAdmin None (Some ''u1''))
   \<and> signalsForbidden
     (ensureOwnerOrAdmin (Some \<lparr>username = Some ''u3'', isAdmin = Some False\<rparr>) (Some ''u1''))
   \<and> ensureOwnerOrAdmin (Some \<lparr>username = Some ''u1'', isAdmin = Some False\<rparr>) (Some ''u1'') = Next"
  using ensureOwnerOrAdmin_outcomes
          [of "Some ''u1''" "\<lparr>username = Some ''u3'', isAdmin = Some False\<rparr>"]
    ensureOwnerOrAdmin_outcomes
          [of "Some ''u1''" "\<lparr>username = Some ''u1'', isAdmin = Some False\<rparr>"]
  by simp

text \<open>
  C4. For every actor whose \<open>isAdmin\<close> is \<open>true\<close>, \<open>ensureOwnerOrAdmin\<close> calls
  \<open>next()\<close> for every value of the \<open>:username\<close> of the path, equal to the actor's
  \<open>username\<close> or not: the admin flag is tested first, and a mismatch of the names is
  no error for an admin.
\<close>

theorem ensureOwnerOrAdmin_admin:
  "isAdmin u = Some True \<Longrightarrow> ensureOwnerOrAdmin (Some u) owner = Next"
  by (simp add: ensureOwnerOrAdmin_def)

theorem ensureOwnerOrAdmin_admin_witness:
  "username \<lparr>username = Some ''admin'', isAdmin = Some True\<rparr> \<noteq> Some ''u1''
   \<and> ensureOwnerOrAdmin (Some \<lparr>username = Some ''admin'', isAdmin = Some True\<rparr>) (Some ''u1'') = Next"
proof -
  have a: "isAdmin \<lparr>username = Some ''admin'', isAdmin = Some True\<rparr> = Some True" by simp
  from ensureOwnerOrAdmin_admin [OF a, of "Some ''u1''"] show ?thesis by simp
qed

end
